theory Spec2Isabelle
  imports Complex_Main "HOL-Library.Sublist"
begin

section \<open>Conventions of the embedding\<close>

text \<open>
  The program is a Python add-on that drives a 3D-authoring host. Python floats are
  read as real numbers (no rounding), tuples as products, lists as lists, and every
  exception as a value of \<open>error\<close>. The host's operators (boolean modifier, ray
  casting, text conversion) are parameters of the functions that call them.
\<close>

datatype error = ValueError | ZeroDivisionError | AttributeError | RuntimeError

definition bind_err :: "error + 'a \<Rightarrow> ('a \<Rightarrow> error + 'b) \<Rightarrow> error + 'b" where
  "bind_err r f = (case r of Inl e \<Rightarrow> Inl e | Inr v \<Rightarrow> f v)"

text \<open>Python's \<open>a / b\<close> on floats raises when the divisor is zero.\<close>

definition py_div :: "real \<Rightarrow> real \<Rightarrow> error + real" where
  "py_div a b = (if b = 0 then Inl ZeroDivisionError else Inr (a / b))"

text \<open>Python's \<open>min(...)\<close> and \<open>max(...)\<close> raise ValueError on an empty sequence.\<close>

fun py_min :: "real list \<Rightarrow> error + real" where
  "py_min [] = Inl ValueError"
| "py_min (x # xs) = Inr (fold min xs x)"

fun py_max :: "real list \<Rightarrow> error + real" where
  "py_max [] = Inl ValueError"
| "py_max (x # xs) = Inr (fold max xs x)"

type_synonym point2 = "real \<times> real"

type_synonym point = "real \<times> real \<times> real"

definition px :: "point \<Rightarrow> real" where
  "px p = fst p"

definition py :: "point \<Rightarrow> real" where
  "py p = fst (snd p)"

definition pz :: "point \<Rightarrow> real" where
  "pz p = snd (snd p)"

text \<open>
  \<open>math.atan2(y, x)\<close> of the Python library, on reals (signed zeros apart): the angle
  of the vector \<open>(x, y)\<close>, and 0 for the zero vector.
\<close>

definition atan2 :: "real \<Rightarrow> real \<Rightarrow> real" where
  "atan2 y x =
     (if 0 < x then arctan (y / x)
      else if x < 0 then (if 0 \<le> y then arctan (y / x) + pi else arctan (y / x) - pi)
      else if 0 < y then pi / 2
      else if y < 0 then - (pi / 2)
      else 0)"

section \<open>Road labels (add_road_labels)\<close>

text \<open>The terrain bounds read from the bounding box of the terrain object.\<close>

record terrain_bounds =
  terrain_min_x :: real
  terrain_max_x :: real
  terrain_min_y :: real
  terrain_max_y :: real
  terrain_max_z :: real

text \<open>The label-related options of the property group.\<close>

record label_props =
  road_label_size :: real
  road_label_height :: real
  road_label_min_length :: real
  road_height :: real
  road_depth :: real

type_synonym segment = "point2 \<times> point2"

text \<open>An entry of \<open>labeled_roads\<close>: (name, mid_x, mid_y, angle, inside_length).\<close>

type_synonym labeled_road = "string \<times> real \<times> real \<times> real \<times> real"

text \<open>The pairs \<open>(points[i], points[i+1])\<close> for \<open>i\<close> in \<open>range(len(points) - 1)\<close>.\<close>

fun consecutive :: "'a list \<Rightarrow> ('a \<times> 'a) list" where
  "consecutive (p1 # p2 # ps) = (p1, p2) # consecutive (p2 # ps)"
| "consecutive _ = []"

definition point_inside :: "terrain_bounds \<Rightarrow> point2 \<Rightarrow> bool" where
  "point_inside tb p =
     (terrain_min_x tb \<le> fst p \<and> fst p \<le> terrain_max_x tb \<and>
      terrain_min_y tb \<le> snd p \<and> snd p \<le> terrain_max_y tb)"

definition segment_inside :: "terrain_bounds \<Rightarrow> segment \<Rightarrow> bool" where
  "segment_inside tb seg =
     (let p1 = fst seg; p2 = snd seg;
          p1_inside = point_inside tb p1;
          p2_inside = point_inside tb p2
      in if p1_inside \<or> p2_inside then True
         else
           (let seg_min_x = min (fst p1) (fst p2); seg_max_x = max (fst p1) (fst p2);
                seg_min_y = min (snd p1) (snd p2); seg_max_y = max (snd p1) (snd p2)
            in seg_min_x \<le> terrain_max_x tb \<and> seg_max_x \<ge> terrain_min_x tb \<and>
               seg_min_y \<le> terrain_max_y tb \<and> seg_max_y \<ge> terrain_min_y tb))"

definition inside_segments :: "terrain_bounds \<Rightarrow> point2 list \<Rightarrow> segment list" where
  "inside_segments tb blender_points = filter (segment_inside tb) (consecutive blender_points)"

text \<open>\<open>((x2 - x1)**2 + (y2 - y1)**2)**0.5\<close>: the square root of a sum of squares.\<close>

definition seg_len :: "segment \<Rightarrow> real" where
  "seg_len seg =
     sqrt ((fst (snd seg) - fst (fst seg))\<^sup>2 + (snd (snd seg) - snd (fst seg))\<^sup>2)"

definition inside_length :: "segment list \<Rightarrow> real" where
  "inside_length segs = sum_list (map seg_len segs)"

text \<open>
  The walk to the midpoint: the first segment at which the accumulated length reaches
  the target gives the anchor and the tangent angle; when none does, the values set
  before the loop stay.
\<close>

fun find_midpoint :: "real \<Rightarrow> real \<Rightarrow> real \<times> real \<times> real \<Rightarrow> segment list \<Rightarrow> real \<times> real \<times> real" where
  "find_midpoint target_dist current_dist initial [] = initial"
| "find_midpoint target_dist current_dist initial (seg # rest) =
     (let p1 = fst seg; p2 = snd seg; l = seg_len seg
      in if current_dist + l \<ge> target_dist then
           (let t = (if l > 0 then (target_dist - current_dist) / l else 0)
            in (fst p1 + t * (fst p2 - fst p1),
                snd p1 + t * (snd p2 - snd p1),
                atan2 (snd p2 - snd p1) (fst p2 - fst p1)))
         else find_midpoint target_dist (current_dist + l) initial rest)"

text \<open>\<open>name.endswith(suffix)\<close> and the slice \<open>name[:-n]\<close> of Python strings.\<close>

definition endswith :: "string \<Rightarrow> string \<Rightarrow> bool" where
  "endswith name suf =
     (length suf \<le> length name \<and> drop (length name - length suf) name = suf)"

definition slice_to_neg :: "string \<Rightarrow> nat \<Rightarrow> string" where
  "slice_to_neg name n = (if n = 0 then [] else take (length name - n) name)"

text \<open>The loop over the rules: the first rule whose suffix matches is applied, then \<open>break\<close>.\<close>

fun abbreviate :: "(string \<times> string) list \<Rightarrow> string \<Rightarrow> string" where
  "abbreviate [] name = name"
| "abbreviate ((full, abbr) # rules) name =
     (if endswith name full then slice_to_neg name (length full) @ abbr
      else abbreviate rules name)"

text \<open>The shorter rule list used for the size estimate of a candidate.\<close>

definition estimate_rules :: "(string \<times> string) list" where
  "estimate_rules =
     [('' Street'', '' St''), ('' Avenue'', '' Ave''), ('' Boulevard'', '' Blvd''),
      ('' Drive'', '' Dr''), ('' Road'', '' Rd''), ('' Lane'', '' Ln''),
      ('' Court'', '' Ct''), ('' Place'', '' Pl''), ('' Circle'', '' Cir''),
      ('' Trail'', '' Tr''), ('' Way'', '' Wy''), ('' Heights'', '' Hts'')]"

text \<open>The dictionary \<open>abbreviations\<close>, in insertion order (the order of iteration).\<close>

definition abbreviations :: "(string \<times> string) list" where
  "abbreviations =
     [('' Street'', '' St''), ('' Avenue'', '' Ave''), ('' Boulevard'', '' Blvd''),
      ('' Drive'', '' Dr''), ('' Road'', '' Rd''), ('' Lane'', '' Ln''),
      ('' Court'', '' Ct''), ('' Place'', '' Pl''), ('' Circle'', '' Cir''),
      ('' Trail'', '' Tr''), ('' Way'', '' Wy''), ('' Terrace'', '' Ter''),
      ('' Highway'', '' Hwy''), ('' Parkway'', '' Pkwy''), ('' Heights'', '' Hts''),
      ('' Point'', '' Pt''), ('' Square'', '' Sq''), ('' North'', '' N''),
      ('' South'', '' S''), ('' East'', '' E''), ('' West'', '' W'')]"

definition abbreviate_name :: "string \<Rightarrow> string" where
  "abbreviate_name name = abbreviate abbreviations name"

text \<open>The orientation that keeps the text readable from left to right (candidate check).\<close>

definition label_angle :: "real \<Rightarrow> real" where
  "label_angle angle = (if angle > pi / 2 \<or> angle < - pi / 2 then angle + pi else angle)"

text \<open>The same normalisation where the text object is rotated (\<open>rotation_euler\<close>).\<close>

definition road_angle :: "real \<Rightarrow> real" where
  "road_angle angle = (if angle > pi / 2 \<or> angle < - pi / 2 then angle + pi else angle)"

definition label_corners :: "real \<Rightarrow> real \<Rightarrow> real \<Rightarrow> real \<Rightarrow> real \<Rightarrow> point2 list" where
  "label_corners half_w half_h a mid_x mid_y =
     (let cos_a = cos a; sin_a = sin a
      in [(- half_w * cos_a - half_h * sin_a + mid_x, - half_w * sin_a + half_h * cos_a + mid_y),
          (half_w * cos_a - half_h * sin_a + mid_x, half_w * sin_a + half_h * cos_a + mid_y),
          (half_w * cos_a + half_h * sin_a + mid_x, half_w * sin_a - half_h * cos_a + mid_y),
          (- half_w * cos_a + half_h * sin_a + mid_x, - half_w * sin_a - half_h * cos_a + mid_y)])"

fun all_inside :: "terrain_bounds \<Rightarrow> real \<Rightarrow> point2 list \<Rightarrow> bool" where
  "all_inside tb margin [] = True"
| "all_inside tb margin (c # cs) =
     (if fst c < terrain_min_x tb + margin \<or> fst c > terrain_max_x tb - margin \<or>
         snd c < terrain_min_y tb + margin \<or> snd c > terrain_max_y tb - margin
      then False
      else all_inside tb margin cs)"

text \<open>
  One pass of the candidate loop for a road not seen before: \<open>None\<close> is a
  \<open>continue\<close> (nothing inside the tile, too short, or a corner of the estimated
  label outside the tile).
\<close>

definition label_candidate :: "label_props \<Rightarrow> terrain_bounds \<Rightarrow> string \<Rightarrow> point2 list \<Rightarrow> labeled_road option" where
  "label_candidate props tb name blender_points =
     (case inside_segments tb blender_points of
        [] \<Rightarrow> None
      | seg0 # others \<Rightarrow>
          (let segs = seg0 # others; len = inside_length segs
           in if len < road_label_min_length props then None
              else
                (let m = find_midpoint (len / 2) 0 (fst (fst seg0), snd (fst seg0), 0) segs;
                     mid_x = fst m; mid_y = fst (snd m); angle = snd (snd m);
                     abbrev_name = abbreviate estimate_rules name;
                     est_label_width = real (length abbrev_name) * road_label_size props * 0.6;
                     est_label_height = road_label_size props * 0.8;
                     corners = label_corners (est_label_width / 2) (est_label_height / 2)
                                 (label_angle angle) mid_x mid_y;
                     margin = road_label_size props * 0.5
                 in if all_inside tb margin corners
                    then Some (name, mid_x, mid_y, angle, len)
                    else None)))"

fun find_labeled_roads :: "label_props \<Rightarrow> terrain_bounds \<Rightarrow> string list \<Rightarrow> labeled_road list \<Rightarrow> (string \<times> point2 list) list \<Rightarrow> labeled_road list" where
  "find_labeled_roads props tb seen_names labeled_roads [] = labeled_roads"
| "find_labeled_roads props tb seen_names labeled_roads ((name, blender_points) # rest) =
     (if name \<in> set seen_names then find_labeled_roads props tb seen_names labeled_roads rest
      else
        (case label_candidate props tb name blender_points of
           None \<Rightarrow> find_labeled_roads props tb seen_names labeled_roads rest
         | Some c \<Rightarrow> find_labeled_roads props tb (seen_names @ [name]) (labeled_roads @ [c]) rest))"

text \<open>The distance between the anchors of two entries.\<close>

definition anchor_dist :: "labeled_road \<Rightarrow> labeled_road \<Rightarrow> real" where
  "anchor_dist c other =
     sqrt ((fst (snd c) - fst (snd other))\<^sup>2 + (fst (snd (snd c)) - fst (snd (snd other)))\<^sup>2)"

text \<open>The inner loop of the overlap filter: \<open>too_close\<close> is set at the first label nearer
  than \<open>min_distance\<close>.\<close>

fun too_close :: "real \<Rightarrow> labeled_road \<Rightarrow> labeled_road list \<Rightarrow> bool" where
  "too_close min_distance c [] = False"
| "too_close min_distance c (other # others) =
     (if anchor_dist c other < min_distance then True else too_close min_distance c others)"

text \<open>The outer loop: a candidate that is not too close is appended to \<open>filtered_roads\<close>.\<close>

fun filter_overlapping :: "real \<Rightarrow> labeled_road list \<Rightarrow> labeled_road list \<Rightarrow> labeled_road list" where
  "filter_overlapping min_distance filtered_roads [] = filtered_roads"
| "filter_overlapping min_distance filtered_roads (c # rest) =
     (if \<not> too_close min_distance c filtered_roads
      then filter_overlapping min_distance (filtered_roads @ [c]) rest
      else filter_overlapping min_distance filtered_roads rest)"

text \<open>
  The text object made for an accepted entry, before the host wraps it onto the
  terrain and extrudes it: its body, size, location and rotation about Z, and the
  depth of the later extrusion.
\<close>

record text_label =
  body :: string
  text_size :: real
  text_location :: point
  rotation_z :: real
  total_label_depth :: real

definition make_label :: "label_props \<Rightarrow> terrain_bounds \<Rightarrow> labeled_road \<Rightarrow> text_label" where
  "make_label props tb c =
     (let name = fst c; x = fst (snd c); y = fst (snd (snd c)); angle = fst (snd (snd (snd c)));
          abbrev_name = abbreviate_name name
      in \<lparr> body = abbrev_name,
           text_size = road_label_size props,
           text_location = (x, y, terrain_max_z tb + 500),
           rotation_z = road_angle angle,
           total_label_depth = road_height props + road_depth props + road_label_height props \<rparr>)"

text \<open>
  add_road_labels from the list of named roads on: candidates, overlap filter, one
  text object per accepted entry. \<open>None\<close> is the early \<open>return None\<close>.
\<close>

definition add_road_labels :: "label_props \<Rightarrow> terrain_bounds \<Rightarrow> (string \<times> point2 list) list \<Rightarrow> text_label list option" where
  "add_road_labels props tb named_roads =
     (if named_roads = [] then None
      else
        (let labeled_roads = find_labeled_roads props tb [] [] named_roads
         in if labeled_roads = [] then None
            else
              (let min_distance = road_label_size props * 3;
                   filtered_roads = filter_overlapping min_distance [] labeled_roads
               in if filtered_roads = [] then None
                  else Some (map (make_label props tb) filtered_roads))))"

section \<open>CityJSON vertical alignment (add_buildings_cityjson)\<close>

text \<open>
  The ray cast of the host's BVH tree of the terrain: from an origin along a
  direction, the location of the first hit, or \<open>None\<close> when the ray misses.
\<close>

type_synonym ray_cast = "point \<Rightarrow> point \<Rightarrow> point option"

datatype align_report =
    MedianAdjustment nat real
  | ApplyingAdjustment real
  | NoRayHits

text \<open>\<open>sample_count = max(10, len(sorted_verts) // 10)\<close>.\<close>

definition sample_count :: "nat \<Rightarrow> nat" where
  "sample_count n = max 10 (n div 10)"

text \<open>
  The vertices (with their indices) sorted by Z, Python's \<open>sorted\<close> being stable, and
  the first \<open>sample_count\<close> of them.
\<close>

definition sorted_verts :: "point list \<Rightarrow> (nat \<times> point) list" where
  "sorted_verts vs = sort_key (\<lambda>iv. pz (snd iv)) (enumerate 0 vs)"

definition ground_floor_verts :: "point list \<Rightarrow> (nat \<times> point) list" where
  "ground_floor_verts vs = take (sample_count (length (sorted_verts vs))) (sorted_verts vs)"

text \<open>
  One ray per sample, from 1000 above the terrain's top straight down; a hit adds the
  difference between the terrain's Z there and the vertex's Z.
\<close>

fun z_differences :: "ray_cast \<Rightarrow> real \<Rightarrow> (nat \<times> point) list \<Rightarrow> real list" where
  "z_differences cast tmax_z [] = []"
| "z_differences cast tmax_z (iv # rest) =
     (let vert = snd iv;
          ray_origin = (px vert, py vert, tmax_z + 1000);
          ray_direction = (0, 0, - 1)
      in case cast ray_origin ray_direction of
           None \<Rightarrow> z_differences cast tmax_z rest
         | Some hit_location \<Rightarrow>
             (let terrain_z_at_building = pz hit_location;
                  building_z = pz vert;
                  z_diff = terrain_z_at_building - building_z
              in z_diff # z_differences cast tmax_z rest))"

definition shift_z :: "real \<Rightarrow> point \<Rightarrow> point" where
  "shift_z dz v = (px v, py v, pz v + dz)"

text \<open>
  The alignment step on the vertices of the building mesh: the new vertices and what is
  reported. The Z range printed first raises on a mesh without vertices. The index
  \<open>len // 2\<close> is in range because the list of differences is not empty there.
\<close>

definition z_alignment :: "ray_cast \<Rightarrow> real \<Rightarrow> point list \<Rightarrow> error + (point list \<times> align_report list)" where
  "z_alignment cast tmax_z vs =
     bind_err (py_min (map pz vs)) (\<lambda>building_min_z.
     bind_err (py_max (map pz vs)) (\<lambda>building_max_z.
       (let diffs = z_differences cast tmax_z (ground_floor_verts vs)
        in if diffs \<noteq> [] then
             (let sorted_diffs = sort diffs;
                  median_idx = length sorted_diffs div 2;
                  z_adjustment = sorted_diffs ! median_idx
              in if \<bar>z_adjustment\<bar> > 0.5
                 then Inr (map (shift_z z_adjustment) vs,
                           [MedianAdjustment (length sorted_diffs) z_adjustment,
                            ApplyingAdjustment z_adjustment])
                 else Inr (vs, [MedianAdjustment (length sorted_diffs) z_adjustment]))
           else Inr (vs, [NoRayHits]))))"

section \<open>The terrain object, cutter objects and the host's boolean modifier\<close>

text \<open>
  What the code reads of the terrain object: its vertices and the corners of its bounding
  box, both in world coordinates (\<open>matrix_world\<close> applied), and its X dimension.
\<close>

record dem =
  vertices :: "point list"
  bound_box :: "point list"
  dimensions_x :: real

record mesh =
  verts :: "point list"
  faces :: "nat list list"

datatype solver = EXACT | FAST

datatype operation = DIFFERENCE

text \<open>A boolean modifier; its operand is a reference to the cutter object (name and mesh).\<close>

record modifier =
  mod_name :: string
  mod_operation :: operation
  mod_object :: "string \<times> mesh"
  mod_solver :: solver

text \<open>
  The host's boolean difference of the terrain and a cutter mesh with a given solver:
  the new terrain, or \<open>None\<close> when the operator raises.
\<close>

type_synonym boolean_op = "solver \<Rightarrow> dem \<Rightarrow> mesh \<Rightarrow> dem option"

text \<open>The history of a run: objects linked and removed, and every call of the operator
  that applies a modifier (with the solver and the operand of that modifier).\<close>

datatype event = Linked string | Applied solver string | Removed string

datatype message =
    CutOk string
  | CutFailed string
  | FallbackOk string
  | FallbackFailed string
  | DemMissing string
  | CutoutSummary nat
  | CutoutWarning nat
  | HolesExactFailed
  | HolesFastFailed
  | HolesDemMissing
  | HolesAdded
  | DebossFailed
  | TextDebossed
  | FlatBottom real

record scene =
  terrain :: "dem option"
  objects :: "(string \<times> mesh) list"
  modifiers :: "modifier list"
  trace :: "event list"
  printed :: "message list"

datatype outcome = Returned | Raised error

definition say :: "message \<Rightarrow> scene \<Rightarrow> scene" where
  "say msg s = s\<lparr>printed := printed s @ [msg]\<rparr>"

text \<open>\<open>bpy.data.objects.new\<close> followed by \<open>collection.objects.link\<close>.\<close>

definition link_object :: "string \<Rightarrow> mesh \<Rightarrow> scene \<Rightarrow> scene" where
  "link_object name m s =
     s\<lparr>objects := objects s @ [(name, m)], trace := trace s @ [Linked name]\<rparr>"

text \<open>\<open>bpy.data.objects.remove(obj, do_unlink=True)\<close>.\<close>

definition remove_object :: "string \<Rightarrow> scene \<Rightarrow> scene" where
  "remove_object name s =
     s\<lparr>objects := filter (\<lambda>entry. fst entry \<noteq> name) (objects s),
       trace := trace s @ [Removed name]\<rparr>"

text \<open>\<open>modifiers.new(name, type='BOOLEAN')\<close> with the operation, operand and solver set.\<close>

definition modifiers_new :: "string \<Rightarrow> string \<times> mesh \<Rightarrow> solver \<Rightarrow> scene \<Rightarrow> modifier \<times> scene" where
  "modifiers_new name operand sv s =
     (let bool_mod = \<lparr> mod_name = name, mod_operation = DIFFERENCE,
                        mod_object = operand, mod_solver = sv \<rparr>
      in (bool_mod, s\<lparr>modifiers := modifiers s @ [bool_mod]\<rparr>))"

text \<open>
  \<open>bpy.ops.object.modifier_apply\<close>: \<open>True\<close> when the modifier was applied (the terrain
  is replaced by the result and the modifier leaves the stack), \<open>False\<close> when the
  operator raised (the terrain keeps its mesh and the modifier stays on the stack).
\<close>

definition modifier_apply :: "boolean_op \<Rightarrow> modifier \<Rightarrow> scene \<Rightarrow> bool \<times> scene" where
  "modifier_apply bop bool_mod s =
     (let s1 = s\<lparr>trace := trace s @ [Applied (mod_solver bool_mod) (fst (mod_object bool_mod))]\<rparr>
      in case terrain s1 of
           None \<Rightarrow> (False, s1)
         | Some d \<Rightarrow>
             (case bop (mod_solver bool_mod) d (snd (mod_object bool_mod)) of
                None \<Rightarrow> (False, s1)
              | Some d' \<Rightarrow>
                  (True, s1\<lparr>terrain := Some d',
                            modifiers := remove1 bool_mod (modifiers s1)\<rparr>)))"

text \<open>The options of the property group that the cutting steps read.\<close>

record print_props =
  output_width :: real
  text_depth :: real
  add_north_arrow :: bool
  cutout_size :: real
  cutout_depth :: real
  cutout_inset :: real
  cutout_edge_inset :: real
  mounting_hole_diameter :: real
  mounting_hole_inset :: real

text \<open>The extent of the bounding box in X and Y and the lowest vertex.\<close>

record tile =
  min_x :: real
  max_x :: real
  min_y :: real
  max_y :: real
  min_z :: real

definition measure_tile :: "dem \<Rightarrow> error + tile" where
  "measure_tile dem_obj =
     bind_err (py_min (map px (bound_box dem_obj))) (\<lambda>mnx.
     bind_err (py_max (map px (bound_box dem_obj))) (\<lambda>mxx.
     bind_err (py_min (map py (bound_box dem_obj))) (\<lambda>mny.
     bind_err (py_max (map py (bound_box dem_obj))) (\<lambda>mxy.
     bind_err (py_min (map pz (vertices dem_obj))) (\<lambda>mnz.
       Inr \<lparr> min_x = mnx, max_x = mxx, min_y = mny, max_y = mxy, min_z = mnz \<rparr>)))))"

text \<open>\<open>future_scale = props.output_width / (model_width_m * 1000)\<close>.\<close>

definition future_scale :: "print_props \<Rightarrow> dem \<Rightarrow> error + real" where
  "future_scale props dem_obj =
     (let model_width_m = dimensions_x dem_obj
      in py_div (output_width props) (model_width_m * 1000))"

section \<open>Flat-bottom cut (cut_flat_bottom)\<close>

text \<open>
  The cutter: the host's unit cube (\<open>size=1\<close>) added at \<open>box_location\<close> and scaled by
  \<open>box_scale\<close>, so it spans half the scale to each side of its location.
\<close>

record box =
  box_location :: point
  box_scale :: point

definition bottom_cutter :: "dem \<Rightarrow> real \<Rightarrow> error + box" where
  "bottom_cutter obj cut_elevation =
     bind_err (py_min (map px (bound_box obj))) (\<lambda>mnx.
     bind_err (py_max (map px (bound_box obj))) (\<lambda>mxx.
     bind_err (py_min (map py (bound_box obj))) (\<lambda>mny.
     bind_err (py_max (map py (bound_box obj))) (\<lambda>mxy.
     bind_err (py_min (map pz (bound_box obj))) (\<lambda>mnz.
     bind_err (py_max (map pz (bound_box obj))) (\<lambda>mxz.
       (let model_width = max (mxx - mnx) (mxy - mny);
            model_height = mxz - mnz;
            cutter_xy_size = model_width * 3;
            cutter_z_size = max (model_height * 10) 50000;
            cutter_z = cut_elevation - (cutter_z_size / 2);
            cutter_center_x = (mnx + mxx) / 2;
            cutter_center_y = (mny + mxy) / 2
        in Inr \<lparr> box_location = (cutter_center_x, cutter_center_y, cutter_z),
                 box_scale = (cutter_xy_size, cutter_xy_size, cutter_z_size) \<rparr>)))))))"

text \<open>The eight corners and six faces of the scaled cube.\<close>

definition cube_mesh :: "box \<Rightarrow> mesh" where
  "cube_mesh b =
     (let c = box_location b; h = box_scale b
      in \<lparr> verts = [(px c + sx * px h / 2, py c + sy * py h / 2, pz c + sz * pz h / 2).
                      sx \<leftarrow> [- 1, 1], sy \<leftarrow> [- 1, 1], sz \<leftarrow> [- 1, 1]],
           faces = [[0, 1, 3, 2], [2, 3, 7, 6], [6, 7, 5, 4], [4, 5, 1, 0], [2, 6, 4, 0], [7, 3, 1, 5]] \<rparr>)"

definition cut_flat_bottom :: "boolean_op \<Rightarrow> real \<Rightarrow> scene \<Rightarrow> outcome \<times> scene" where
  "cut_flat_bottom bop cut_elevation s =
     (case terrain s of
        None \<Rightarrow> (Raised AttributeError, s)
      | Some obj \<Rightarrow>
          (case bottom_cutter obj cut_elevation of
             Inl e \<Rightarrow> (Raised e, s)
           | Inr b \<Rightarrow>
               (let cutter = (''Bottom_Cutter'', cube_mesh b);
                    s1 = link_object (fst cutter) (snd cutter) s;
                    (bool_mod, s2) = modifiers_new ''Boolean_FlatBottom'' cutter EXACT s1;
                    (ok, s3) = modifier_apply bop bool_mod s2
                in if ok
                   then (Returned, say (FlatBottom cut_elevation) (remove_object ''Bottom_Cutter'' s3))
                   else
                     (let (bool_mod2, s4) = modifiers_new ''Boolean_Retry'' cutter FAST s3;
                          (ok2, s5) = modifier_apply bop bool_mod2 s4
                      in if ok2
                         then (Returned, say (FlatBottom cut_elevation) (remove_object ''Bottom_Cutter'' s5))
                         else (Raised RuntimeError, s5)))))"






section \<open>Alignment cutouts (add_alignment_cutouts)\<close>

text \<open>The values computed before the loop over the eight cutouts.\<close>

record cutout_geometry =
  cutout_tile :: tile
  half_size :: real
  inset_pct :: real
  edge_offset :: real
  z_bottom :: real
  z_top :: real

definition cutout_setup :: "dem \<Rightarrow> print_props \<Rightarrow> error + cutout_geometry" where
  "cutout_setup dem_obj props =
     bind_err (measure_tile dem_obj) (\<lambda>t.
     bind_err (future_scale props dem_obj) (\<lambda>fs.
     bind_err (py_div (cutout_size props / 1000) fs) (\<lambda>size_m.
     bind_err (py_div (cutout_depth props / 1000) fs) (\<lambda>depth_m.
       (let extension_m = depth_m * 2;
            edge_inset_pct = cutout_edge_inset props / 100
        in Inr \<lparr> cutout_tile = t,
                 half_size = size_m / 2,
                 inset_pct = cutout_inset props / 100,
                 edge_offset = (size_m / 2) * (2 * edge_inset_pct - 1),
                 z_bottom = min_z t - extension_m,
                 z_top = min_z t + depth_m + (extension_m * 0.1) \<rparr>)))))"

text \<open>An entry of \<open>cutout_configs\<close>: (center_x, center_y, rotation_angle, name).\<close>

type_synonym cutout_config = "real \<times> real \<times> real \<times> string"

definition cutout_configs :: "cutout_geometry \<Rightarrow> cutout_config list" where
  "cutout_configs g =
     (let t = cutout_tile g;
          width = max_x t - min_x t;
          height = max_y t - min_y t
      in [(min_x t + width * inset_pct g, min_y t + edge_offset g, pi, ''South_W''),
          (max_x t - width * inset_pct g, min_y t + edge_offset g, pi, ''South_E''),
          (min_x t + width * inset_pct g, max_y t - edge_offset g, 0, ''North_W''),
          (max_x t - width * inset_pct g, max_y t - edge_offset g, 0, ''North_E''),
          (min_x t + edge_offset g, min_y t + height * inset_pct g, pi / 2, ''West_S''),
          (min_x t + edge_offset g, max_y t - height * inset_pct g, pi / 2, ''West_N''),
          (max_x t - edge_offset g, min_y t + height * inset_pct g, - pi / 2, ''East_S''),
          (max_x t - edge_offset g, max_y t - height * inset_pct g, - pi / 2, ''East_N'')])"

text \<open>The local triangle: apex first, then base left and base right.\<close>

definition local_pts :: "real \<Rightarrow> point2 list" where
  "local_pts hs = [(0, hs), (- hs, - hs), (hs, - hs)]"

definition to_world :: "real \<Rightarrow> real \<Rightarrow> real \<Rightarrow> real \<Rightarrow> point2 \<Rightarrow> point" where
  "to_world cx cy rot_z z lp =
     (let cos_r = cos rot_z; sin_r = sin rot_z; lx = fst lp; ly = snd lp;
          wx = lx * cos_r - ly * sin_r + cx;
          wy = lx * sin_r + ly * cos_r + cy
      in (wx, wy, z))"

definition prism_verts :: "cutout_geometry \<Rightarrow> cutout_config \<Rightarrow> point list" where
  "prism_verts g cfg =
     (let cx = fst cfg; cy = fst (snd cfg); rot_z = fst (snd (snd cfg))
      in map (to_world cx cy rot_z (z_bottom g)) (local_pts (half_size g)) @
         map (to_world cx cy rot_z (z_top g)) (local_pts (half_size g)))"

definition prism_faces :: "nat list list" where
  "prism_faces = [[0, 2, 1], [3, 4, 5], [0, 1, 4, 3], [1, 2, 5, 4], [2, 0, 3, 5]]"

definition config_name :: "cutout_config \<Rightarrow> string" where
  "config_name cfg = snd (snd (snd cfg))"

text \<open>\<open>mesh.from_pydata(prism_verts, [], prism_faces)\<close>.\<close>

definition prism_mesh :: "cutout_geometry \<Rightarrow> cutout_config \<Rightarrow> mesh" where
  "prism_mesh g cfg = \<lparr> verts = prism_verts g cfg, faces = prism_faces \<rparr>"

text \<open>
  One pass of the loop: the state, \<open>successful_cuts\<close> and \<open>failed_cuts\<close> before and
  after. The cutter is made and linked; when the terrain is missing or has no vertex
  the pass ends there (\<open>continue\<close>); otherwise the EXACT modifier is applied and, when
  that raises, the FAST one.
\<close>

definition process_cutout :: "boolean_op \<Rightarrow> cutout_geometry \<Rightarrow> cutout_config \<Rightarrow> scene \<times> nat \<times> nat \<Rightarrow> scene \<times> nat \<times> nat" where
  "process_cutout bop g cfg st =
     (let s = fst st; successful_cuts = fst (snd st); failed_cuts = snd (snd st);
          name = config_name cfg;
          cutout = ''Cutout_'' @ name;
          cutout_obj = (cutout, prism_mesh g cfg);
          s1 = link_object cutout (snd cutout_obj) s
      in if (case terrain s1 of None \<Rightarrow> True | Some dem_obj \<Rightarrow> length (vertices dem_obj) = 0)
         then (remove_object cutout (say (DemMissing name) s1), successful_cuts, failed_cuts + 1)
         else
           (let (bool_mod, s2) = modifiers_new (''Boolean_'' @ name) cutout_obj EXACT s1;
                (ok, s3) = modifier_apply bop bool_mod s2
            in if ok
               then (remove_object cutout (say (CutOk name) s3), successful_cuts + 1, failed_cuts)
               else
                 (let s4 = say (CutFailed name) s3;
                      (bool_mod2, s5) = modifiers_new (''Boolean_'' @ name @ ''_retry'') cutout_obj FAST s4;
                      (ok2, s6) = modifier_apply bop bool_mod2 s5
                  in if ok2
                     then (remove_object cutout (say (FallbackOk name) s6),
                           successful_cuts + 1, failed_cuts)
                     else (remove_object cutout (say (FallbackFailed name) s6),
                           successful_cuts, failed_cuts + 1))))"

definition add_alignment_cutouts :: "boolean_op \<Rightarrow> print_props \<Rightarrow> scene \<Rightarrow> outcome \<times> scene" where
  "add_alignment_cutouts bop props s =
     (case terrain s of
        None \<Rightarrow> (Raised AttributeError, s)
      | Some dem_obj \<Rightarrow>
          (case cutout_setup dem_obj props of
             Inl e \<Rightarrow> (Raised e, s)
           | Inr g \<Rightarrow>
               (let st = fold (process_cutout bop g) (cutout_configs g) (s, 0, 0);
                    s' = say (CutoutSummary (fst (snd st))) (fst st);
                    failed_cuts = snd (snd st)
                in if failed_cuts > 0 then (Returned, say (CutoutWarning failed_cuts) s')
                   else (Returned, s'))))"

section \<open>Mounting holes (add_mounting_holes)\<close>

record hole_geometry =
  hole_tile :: tile
  radius_m :: real
  inset_x :: real
  inset_y :: real
  hole_z_bottom :: real
  hole_z_top :: real

definition hole_setup :: "dem \<Rightarrow> print_props \<Rightarrow> error + hole_geometry" where
  "hole_setup dem_obj props =
     bind_err (measure_tile dem_obj) (\<lambda>t.
     bind_err (future_scale props dem_obj) (\<lambda>fs.
     bind_err (py_div (mounting_hole_diameter props / 1000) fs) (\<lambda>diameter_m.
     bind_err (py_div (cutout_depth props / 1000) fs) (\<lambda>depth_m.
       (let extension_m = 1;
            width = max_x t - min_x t;
            height = max_y t - min_y t;
            pct = mounting_hole_inset props / 100
        in Inr \<lparr> hole_tile = t,
                 radius_m = diameter_m / 2,
                 inset_x = width * pct,
                 inset_y = height * pct,
                 hole_z_bottom = min_z t - extension_m,
                 hole_z_top = min_z t + depth_m \<rparr>)))))"

definition hole_positions :: "hole_geometry \<Rightarrow> (real \<times> real \<times> string) list" where
  "hole_positions g =
     (let t = hole_tile g
      in [(min_x t + inset_x g, min_y t + inset_y g, ''SW''),
          (max_x t - inset_x g, min_y t + inset_y g, ''SE''),
          (min_x t + inset_x g, max_y t - inset_y g, ''NW''),
          (max_x t - inset_x g, max_y t - inset_y g, ''NE'')])"

definition segments :: nat where
  "segments = 16"

text \<open>The vertices of one cylinder: bottom circle, top circle, bottom centre, top centre.\<close>

definition cylinder_verts :: "hole_geometry \<Rightarrow> real \<Rightarrow> real \<Rightarrow> point list" where
  "cylinder_verts g cx cy =
     (let circle = map (\<lambda>i. (let angle = 2 * pi * real i / real segments
                              in (cx + radius_m g * cos angle, cy + radius_m g * sin angle)))
                       [0..<segments];
          bottom_verts = map (\<lambda>c. (fst c, snd c, hole_z_bottom g)) circle;
          top_verts = map (\<lambda>c. (fst c, snd c, hole_z_top g)) circle;
          bottom_center = (cx, cy, hole_z_bottom g);
          top_center = (cx, cy, hole_z_top g)
      in bottom_verts @ top_verts @ [bottom_center, top_center])"

text \<open>The faces of one cylinder whose first vertex has index \<open>v\<close>: sides, bottom cap, top cap.\<close>

definition cylinder_faces :: "nat \<Rightarrow> nat list list" where
  "cylinder_faces v =
     map (\<lambda>i. (let i_next = (i + 1) mod segments
                in [v + i, v + i_next, v + segments + i_next, v + segments + i]))
         [0..<segments] @
     map (\<lambda>i. (let i_next = (i + 1) mod segments; bottom_center_idx = v + 2 * segments
                in [bottom_center_idx, v + i_next, v + i]))
         [0..<segments] @
     map (\<lambda>i. (let i_next = (i + 1) mod segments; top_center_idx = v + 2 * segments + 1
                in [top_center_idx, v + segments + i, v + segments + i_next]))
         [0..<segments]"

text \<open>The loop over the four positions: \<open>all_verts\<close>, \<open>all_faces\<close> and \<open>vert_offset\<close>.\<close>

fun collect_holes :: "hole_geometry \<Rightarrow> (real \<times> real \<times> string) list \<Rightarrow> point list \<times> nat list list \<times> nat \<Rightarrow> point list \<times> nat list list \<times> nat" where
  "collect_holes g [] acc = acc"
| "collect_holes g (pos # rest) acc =
     (let all_verts = fst acc; all_faces = fst (snd acc); vert_offset = snd (snd acc);
          cx = fst pos; cy = fst (snd pos)
      in collect_holes g rest
           (all_verts @ cylinder_verts g cx cy,
            all_faces @ cylinder_faces vert_offset,
            vert_offset + (2 * segments + 2)))"

definition holes_mesh :: "hole_geometry \<Rightarrow> mesh" where
  "holes_mesh g =
     (let acc = collect_holes g (hole_positions g) ([], [], 0)
      in \<lparr> verts = fst acc, faces = fst (snd acc) \<rparr>)"

definition add_mounting_holes :: "boolean_op \<Rightarrow> print_props \<Rightarrow> scene \<Rightarrow> outcome \<times> scene" where
  "add_mounting_holes bop props s =
     (case terrain s of
        None \<Rightarrow> (Raised AttributeError, s)
      | Some dem_obj \<Rightarrow>
          (case hole_setup dem_obj props of
             Inl e \<Rightarrow> (Raised e, s)
           | Inr g \<Rightarrow>
               (let holes = ''Mounting_Holes_Combined'';
                    holes_obj = (holes, holes_mesh g);
                    s1 = link_object holes (snd holes_obj) s
                in if (case terrain s1 of None \<Rightarrow> True | Some d \<Rightarrow> length (vertices d) = 0)
                   then (Returned, remove_object holes (say HolesDemMissing s1))
                   else
                     (let (bool_mod, s2) = modifiers_new ''Boolean_MountingHoles'' holes_obj EXACT s1;
                          (ok, s3) = modifier_apply bop bool_mod s2
                      in if ok then (Returned, say HolesAdded (remove_object holes s3))
                         else
                           (let s4 = say HolesExactFailed s3;
                                (bool_mod2, s5) =
                                   modifiers_new ''Boolean_MountingHoles_retry'' holes_obj FAST s4;
                                (ok2, s6) = modifier_apply bop bool_mod2 s5
                            in if ok2 then (Returned, say HolesAdded (remove_object holes s6))
                               else (Returned,
                                     say HolesAdded (remove_object holes (say HolesFastFailed s6))))))))"

section \<open>Debossed text (add_text_before_scale)\<close>

text \<open>
  The host turns a text object into a mesh: body, size, extrusion depth and the
  location it is moved to. Joining objects puts their meshes together.
\<close>

type_synonym text_to_mesh = "string \<Rightarrow> real \<Rightarrow> real \<Rightarrow> point \<Rightarrow> mesh"

definition join_meshes :: "mesh \<Rightarrow> mesh \<Rightarrow> mesh" where
  "join_meshes a b =
     \<lparr> verts = verts a @ verts b,
       faces = faces a @ map (map (\<lambda>i. i + length (verts a))) (faces b) \<rparr>"

text \<open>create_north_arrow: the letter N and a triangular prism whose apex points north.\<close>

definition create_north_arrow :: "text_to_mesh \<Rightarrow> dem \<Rightarrow> real \<Rightarrow> real \<Rightarrow> real \<Rightarrow> real \<Rightarrow> error + mesh" where
  "create_north_arrow to_mesh dem_obj mnz text_size_m depth_m extension =
     bind_err (py_max (map px (bound_box dem_obj))) (\<lambda>mxx.
     bind_err (py_max (map py (bound_box dem_obj))) (\<lambda>mxy.
     bind_err (py_min (map px (bound_box dem_obj))) (\<lambda>mnx.
     bind_err (py_min (map py (bound_box dem_obj))) (\<lambda>mny.
       (let arrow_x = mnx + (mxx - mnx) * 0.85;
            arrow_y = mny + (mxy - mny) * 0.85;
            total_depth = depth_m + extension * 2;
            north_n = to_mesh ''N'' (text_size_m * 0.6) total_depth
                        (arrow_x, arrow_y, mnz + depth_m / 2);
            arrow_offset = text_size_m * 0.5;
            arrow_size = text_size_m * 0.3;
            zb = mnz - extension;
            zt = mnz + depth_m + extension;
            apex = (arrow_x, arrow_y + arrow_offset + arrow_size);
            base_left = (arrow_x - arrow_size * 0.4, arrow_y + arrow_offset);
            base_right = (arrow_x + arrow_size * 0.4, arrow_y + arrow_offset);
            arrow = \<lparr> verts = [(fst apex, snd apex, zb), (fst base_left, snd base_left, zb),
                                (fst base_right, snd base_right, zb), (fst apex, snd apex, zt),
                                (fst base_left, snd base_left, zt),
                                (fst base_right, snd base_right, zt)],
                       faces = [[0, 2, 1], [3, 4, 5], [0, 1, 4, 3], [1, 2, 5, 4], [2, 0, 3, 5]] \<rparr>
        in Inr (join_meshes north_n arrow))))))"

text \<open>
  The deboss cutter: the text mesh, joined with the north arrow when that is enabled.
  The text and arrow objects are joined into the one object that the scene keeps under
  the name of the final cutter.
\<close>

definition deboss_cutter :: "text_to_mesh \<Rightarrow> dem \<Rightarrow> string \<Rightarrow> print_props \<Rightarrow> error + mesh" where
  "deboss_cutter to_mesh dem_obj text_string props =
     bind_err (py_min (map pz (vertices dem_obj))) (\<lambda>mnz.
       (let center_x = sum_list (map px (bound_box dem_obj)) / 8;
            center_y = sum_list (map py (bound_box dem_obj)) / 8;
            model_width_m = dimensions_x dem_obj;
            text_size_m = model_width_m * 0.12
        in bind_err (future_scale props dem_obj) (\<lambda>fs.
           bind_err (py_div (text_depth props / 1000) fs) (\<lambda>depth_m.
             (let extension = depth_m * 2;
                  total_depth = depth_m + extension * 2;
                  text_mesh = to_mesh text_string text_size_m total_depth
                                (center_x, center_y, mnz + depth_m / 2)
              in if add_north_arrow props
                 then bind_err (create_north_arrow to_mesh dem_obj mnz text_size_m depth_m extension)
                        (\<lambda>arrow. Inr (join_meshes text_mesh arrow))
                 else Inr text_mesh)))))"

definition add_text_before_scale :: "boolean_op \<Rightarrow> text_to_mesh \<Rightarrow> string \<Rightarrow> print_props \<Rightarrow> scene \<Rightarrow> outcome \<times> scene" where
  "add_text_before_scale bop to_mesh text_string props s =
     (case terrain s of
        None \<Rightarrow> (Raised AttributeError, s)
      | Some dem_obj \<Rightarrow>
          (case deboss_cutter to_mesh dem_obj text_string props of
             Inl e \<Rightarrow> (Raised e, s)
           | Inr cutter \<Rightarrow>
               (let s1 = link_object ''Final_Deboss_Cutter'' cutter s;
                    (bool_mod, s2) =
                       modifiers_new ''Boolean_Deboss'' (''Final_Deboss_Cutter'', cutter) FAST s1;
                    (ok, s3) = modifier_apply bop bool_mod s2;
                    s4 = (if ok then s3 else say DebossFailed s3)
                in (Returned, say TextDebossed (remove_object ''Final_Deboss_Cutter'' s4)))))"

section \<open>Notions used to state the properties\<close>

text \<open>
  The events of one subtraction that tries EXACT first and FAST once after a failure:
  the cutter is linked, EXACT is applied, FAST is applied when EXACT raised on the
  terrain \<open>d\<close>, and the cutter is removed.
\<close>

definition exact_then_fast :: "boolean_op \<Rightarrow> dem \<Rightarrow> string \<Rightarrow> mesh \<Rightarrow> event list" where
  "exact_then_fast bop d name m =
     [Linked name, Applied EXACT name] @
     (if bop EXACT d m = None then [Applied FAST name] else []) @ [Removed name]"

text \<open>The terrain after such a subtraction: the first result, or the terrain as it was.\<close>

definition after_subtraction :: "boolean_op \<Rightarrow> dem \<Rightarrow> mesh \<Rightarrow> dem" where
  "after_subtraction bop d m =
     (case bop EXACT d m of
        Some d' \<Rightarrow> d'
      | None \<Rightarrow> (case bop FAST d m of Some d' \<Rightarrow> d' | None \<Rightarrow> d))"

text \<open>The solver calls of a history, and the objects linked in it, in order.\<close>

fun applied :: "event list \<Rightarrow> (solver \<times> string) list" where
  "applied [] = []"
| "applied (Applied sv n # es) = (sv, n) # applied es"
| "applied (e # es) = applied es"

fun linked :: "event list \<Rightarrow> string list" where
  "linked [] = []"
| "linked (Linked n # es) = n # linked es"
| "linked (e # es) = linked es"

text \<open>
  The events of one cutout: created and removed, with no solver call in between (the
  terrain was missing or empty), one EXACT call, or an EXACT call and a FAST call.
\<close>

definition cutout_block :: "string \<Rightarrow> event list \<Rightarrow> bool" where
  "cutout_block n blk =
     (blk = [Linked n, Removed n] \<or> blk = [Linked n, Applied EXACT n, Removed n] \<or>
      blk = [Linked n, Applied EXACT n, Applied FAST n, Removed n])"

definition attempted_block :: "string \<Rightarrow> event list \<Rightarrow> bool" where
  "attempted_block n blk =
     (blk = [Linked n, Applied EXACT n, Removed n] \<or>
      blk = [Linked n, Applied EXACT n, Applied FAST n, Removed n])"

definition eight_cutouts :: "string list" where
  "eight_cutouts =
     [''Cutout_South_W'', ''Cutout_South_E'', ''Cutout_North_W'', ''Cutout_North_E'',
      ''Cutout_West_S'', ''Cutout_West_N'', ''Cutout_East_S'', ''Cutout_East_N'']"

definition has_vertices :: "scene \<Rightarrow> bool" where
  "has_vertices s = (case terrain s of None \<Rightarrow> False | Some d \<Rightarrow> vertices d \<noteq> [])"

text \<open>A solver that never turns a terrain with vertices into one without.\<close>

definition keeps_vertices :: "boolean_op \<Rightarrow> bool" where
  "keeps_vertices bop =
     (\<forall>k d c d'. vertices d \<noteq> [] \<longrightarrow> bop k d c = Some d' \<longrightarrow> vertices d' \<noteq> [])"






text \<open>The terrain-minus-building difference of one sample, when its ray hits.\<close>

definition sample_diff :: "ray_cast \<Rightarrow> real \<Rightarrow> nat \<times> point \<Rightarrow> real option" where
  "sample_diff cast tmax_z iv =
     map_option (\<lambda>hit. pz hit - pz (snd iv))
       (cast (px (snd iv), py (snd iv), tmax_z + 1000) (0, 0, - 1))"

text \<open>The lowest tenth of the vertices, as the words "lowest-Z decile" read.\<close>

definition lowest_decile :: "point list \<Rightarrow> (nat \<times> point) list" where
  "lowest_decile vs = take (length vs div 10) (sorted_verts vs)"

section \<open>Example inputs\<close>

text \<open>
  A flat 100 by 100 terrain, 1 high above Z = 0, on a base that reaches 10 below: the
  block from (0, 0, -10) to (100, 100, 1). Then the default options.
\<close>

definition flat_terrain :: dem where
  "flat_terrain =
     \<lparr> vertices = [(0, 0, - 10), (0, 0, 1), (0, 100, 1), (0, 100, - 10),
                   (100, 0, - 10), (100, 0, 1), (100, 100, 1), (100, 100, - 10)],
       bound_box = [(0, 0, - 10), (0, 0, 1), (0, 100, 1), (0, 100, - 10),
                    (100, 0, - 10), (100, 0, 1), (100, 100, 1), (100, 100, - 10)],
       dimensions_x = 100 \<rparr>"

definition default_props :: print_props where
  "default_props =
     \<lparr> output_width = 200, text_depth = 1, add_north_arrow = False, cutout_size = 5,
       cutout_depth = 3, cutout_inset = 25, cutout_edge_inset = 50,
       mounting_hole_diameter = 3, mounting_hole_inset = 10 \<rparr>"

text \<open>The cutout geometry that \<open>cutout_setup\<close> computes for this terrain and these options.\<close>

definition flat_geometry :: cutout_geometry where
  "flat_geometry =
     \<lparr> cutout_tile = \<lparr> min_x = 0, max_x = 100, min_y = 0, max_y = 100, min_z = - 10 \<rparr>,
       half_size = 5 / 4, inset_pct = 1 / 4, edge_offset = 0,
       z_bottom = - 13, z_top = - 41 / 5 \<rparr>"

definition flat_scene :: scene where
  "flat_scene =
     \<lparr> terrain = Some flat_terrain, objects = [], modifiers = [], trace = [], printed = [] \<rparr>"


definition solver_raises :: boolean_op where
  "solver_raises sv d cutter = None"

definition solver_exact_only :: boolean_op where
  "solver_exact_only sv d cutter = (if sv = EXACT then Some d else None)"


definition plain_text :: text_to_mesh where
  "plain_text txt sz depth location = \<lparr> verts = [location], faces = [] \<rparr>"

text \<open>Twenty building vertices, the two lowest 12 below a flat terrain at Z = 0.\<close>

definition twenty_vertices :: "point list" where
  "twenty_vertices =
     [(0, 0, - 12), (1, 0, - 12), (2, 0, 0), (3, 0, 0), (4, 0, 0), (5, 0, 0), (6, 0, 0),
      (7, 0, 0), (8, 0, 0), (9, 0, 0), (10, 0, 0), (11, 0, 0), (12, 0, 0), (13, 0, 0),
      (14, 0, 0), (15, 0, 0), (16, 0, 0), (17, 0, 0), (18, 0, 0), (19, 0, 0)]"

definition flat_cast :: ray_cast where
  "flat_cast origin direction = Some (px origin, py origin, 0)"

text \<open>A terrain that lies 12 above each vertex of a small building, and one no ray hits.\<close>

definition sloped_cast :: ray_cast where
  "sloped_cast origin direction = Some (px origin, py origin, 12 + 5 * py origin)"

definition no_hit_cast :: ray_cast where
  "no_hit_cast origin direction = None"

definition small_building :: "point list" where
  "small_building = [(0, 1, 5), (0, 0, 0), (1, 0, 0)]"

definition example_label_props :: label_props where
  "example_label_props =
     \<lparr> road_label_size = 30, road_label_height = 5, road_label_min_length = 100,
       road_height = 2, road_depth = 3 \<rparr>"

definition example_bounds :: terrain_bounds where
  "example_bounds =
     \<lparr> terrain_min_x = 0, terrain_max_x = 1000, terrain_min_y = 0, terrain_max_y = 1000,
       terrain_max_z = 1000 \<rparr>"

section \<open>Properties of the road labels\<close>















lemma add_road_labels_Some:
  assumes "add_road_labels props tb named_roads = Some labels"
  shows "labels = map (make_label props tb)
           (filter_overlapping (road_label_size props * 3) []
              (find_labeled_roads props tb [] [] named_roads))"
  using assms by (auto simp: add_road_labels_def Let_def split: if_splits)


lemma sqrt_640000: "sqrt 640000 = 800"
  by (rule real_sqrt_unique) simp_all

lemma main_street_candidate:
  "label_candidate example_label_props example_bounds ''Main Street'' [(900, 500), (100, 500)]
     = Some (''Main Street'', 500, 500, pi, 800)"
  by (simp add: label_candidate_def inside_segments_def segment_inside_def point_inside_def
      example_bounds_def example_label_props_def inside_length_def seg_len_def sqrt_640000
      Let_def atan2_def estimate_rules_def endswith_def slice_to_neg_def label_corners_def
      label_angle_def)

lemma main_street_abbreviated: "abbreviate_name ''Main Street'' = ''Main St''"
  by (simp add: abbreviate_name_def abbreviations_def endswith_def slice_to_neg_def)

lemma main_street_labels:
  "add_road_labels example_label_props example_bounds
     [(''Main Street'', [(900, 500), (100, 500)])]
   = Some [\<lparr> body = ''Main St'', text_size = 30, text_location = (500, 500, 1500),
             rotation_z = 2 * pi, total_label_depth = 10 \<rparr>]"
  by (simp add: add_road_labels_def main_street_candidate make_label_def
      main_street_abbreviated road_angle_def)
     (simp add: example_label_props_def example_bounds_def)



lemma endswith_rev: "endswith s t = (take (length t) (rev s) = rev t)"
proof
  assume "endswith s t"
  then have le: "length t \<le> length s" and d: "drop (length s - length t) s = t"
    by (simp_all add: endswith_def)
  have "rev t = rev (drop (length s - length t) s)" using d by simp
  also have "\<dots> = take (length t) (rev s)" using le by (simp add: rev_drop)
  finally show "take (length t) (rev s) = rev t" by simp
next
  assume a: "take (length t) (rev s) = rev t"
  then have "length (take (length t) (rev s)) = length (rev t)" by simp
  then have le: "length t \<le> length s" by simp
  have "t = rev (take (length t) (rev s))" using a by simp
  also have "\<dots> = drop (length s - length t) s" by (simp add: rev_take)
  finally show "endswith s t" using le by (simp add: endswith_def)
qed

lemma abbreviate_rule:
  "\<forall>(full, abbr) \<in> set abbreviations. abbreviate_name (p @ full) = p @ abbr"
  by (simp add: abbreviate_name_def abbreviations_def endswith_rev slice_to_neg_def)

lemma abbreviate_no_match:
  "\<forall>(full, abbr) \<in> set rules. \<not> endswith name full \<Longrightarrow> abbreviate rules name = name"
  by (induction rules) auto

text \<open>
  C9. The text of every label that add_road_labels makes is the abbreviated name of its
  accepted candidate: the body is set from \<open>abbreviate_name\<close> when the text object is
  made. A name that ends with the long form of a rule gets that suffix replaced by the
  short form (for every rule of the table), a name that ends with none is kept, and
  "Main Street" becomes "Main St".
\<close>

theorem label_text_abbreviated:
  "(add_road_labels props tb named_roads = Some labels \<longrightarrow>
      map body labels =
        map (\<lambda>c. abbreviate_name (fst c))
          (filter_overlapping (road_label_size props * 3) []
             (find_labeled_roads props tb [] [] named_roads)))
   \<and> (\<forall>(full, abbr) \<in> set abbreviations. abbreviate_name (p @ full) = p @ abbr)
   \<and> ((\<forall>(full, abbr) \<in> set abbreviations. \<not> endswith name full) \<longrightarrow>
        abbreviate_name name = name)
   \<and> abbreviate_name ''Main Street'' = ''Main St''"
proof -
  have 1: "add_road_labels props tb named_roads = Some labels \<longrightarrow>
      map body labels =
        map (\<lambda>c. abbreviate_name (fst c))
          (filter_overlapping (road_label_size props * 3) []
             (find_labeled_roads props tb [] [] named_roads))"
  proof
    assume "add_road_labels props tb named_roads = Some labels"
    from add_road_labels_Some [OF this] show "map body labels =
        map (\<lambda>c. abbreviate_name (fst c))
          (filter_overlapping (road_label_size props * 3) []
             (find_labeled_roads props tb [] [] named_roads))"
      by (simp add: make_label_def Let_def comp_def)
  qed
  have 3: "(\<forall>(full, abbr) \<in> set abbreviations. \<not> endswith name full) \<longrightarrow>
        abbreviate_name name = name"
    using abbreviate_no_match [of abbreviations name] by (simp add: abbreviate_name_def)
  from 1 abbreviate_rule [of p] 3 main_street_abbreviated show ?thesis by blast
qed

theorem label_text_abbreviated_witness:
  "add_road_labels example_label_props example_bounds
        [(''Main Street'', [(900, 500), (100, 500)])]
      = Some [\<lparr> body = ''Main St'', text_size = 30, text_location = (500, 500, 1500),
                rotation_z = 2 * pi, total_label_depth = 10 \<rparr>]
   \<and> map body [\<lparr> body = ''Main St'', text_size = 30, text_location = (500, 500, 1500),
                  rotation_z = 2 * pi, total_label_depth = 10 \<rparr>] = [''Main St'']
   \<and> ('' Avenue'', '' Ave'') \<in> set abbreviations
   \<and> abbreviate_name (''Park'' @ '' Avenue'') = ''Park'' @ '' Ave''
   \<and> abbreviate_name ''Broadway'' = ''Broadway''"
proof -
  have a: "('' Avenue'', '' Ave'') \<in> set abbreviations" by (simp add: abbreviations_def)
  have n: "\<forall>(full, abbr) \<in> set abbreviations. \<not> endswith ''Broadway'' full"
    by (simp add: abbreviations_def endswith_def)
  from label_text_abbreviated [of example_label_props example_bounds
      "[(''Main Street'', [(900, 500), (100, 500)])]"
      "[\<lparr> body = ''Main St'', text_size = 30, text_location = (500, 500, 1500),
          rotation_z = 2 * pi, total_label_depth = 10 \<rparr>]" "''Park''" "''Broadway''"]
    main_street_labels a n
  show ?thesis by auto
qed

section \<open>Properties of the vertical alignment\<close>

lemma z_differences_map_filter:
  "z_differences cast t samples = List.map_filter (sample_diff cast t) samples"
  by (induction samples)
     (auto simp: List.map_filter_simps sample_diff_def Let_def split: option.splits)

lemma z_differences_empty:
  "z_differences cast t samples = [] \<longleftrightarrow>
     (\<forall>iv \<in> set samples. cast (px (snd iv), py (snd iv), t + 1000) (0, 0, - 1) = None)"
  by (induction samples) (auto simp: Let_def split: option.splits)

lemma sorted_verts_props:
  "sorted (map (\<lambda>iv. pz (snd iv)) (sorted_verts vs))"
  "set (sorted_verts vs) = set (enumerate 0 vs)"
  "length (sorted_verts vs) = length vs"
  by (simp_all add: sorted_verts_def)

lemma ground_floor_length:
  "length (ground_floor_verts vs) = min (length vs) (max 10 (length vs div 10))"
  by (simp add: ground_floor_verts_def sorted_verts_props(3) sample_count_def min.commute)

lemma ground_floor_decile:
  "100 \<le> length vs \<Longrightarrow> ground_floor_verts vs = lowest_decile vs"
  by (simp add: ground_floor_verts_def lowest_decile_def sorted_verts_props(3) sample_count_def)

lemma ground_floor_lowest:
  assumes "s \<in> set (ground_floor_verts vs)"
    and "r \<in> set (drop (sample_count (length vs)) (sorted_verts vs))"
  shows "pz (snd s) \<le> pz (snd r)"
proof -
  let ?k = "sample_count (length vs)"
  let ?xs = "map (\<lambda>iv. pz (snd iv)) (sorted_verts vs)"
  have "sorted (take ?k ?xs @ drop ?k ?xs)" using sorted_verts_props(1) [of vs] by simp
  then have "\<forall>x \<in> set (take ?k ?xs). \<forall>y \<in> set (drop ?k ?xs). x \<le> y"
    by (simp only: sorted_append) blast
  moreover have "pz (snd s) \<in> set (take ?k ?xs)"
    using assms(1) by (simp add: ground_floor_verts_def sorted_verts_props(3) take_map)
  moreover have "pz (snd r) \<in> set (drop ?k ?xs)"
    using assms(2) by (simp add: drop_map)
  ultimately show ?thesis by blast
qed

lemma constant_median:
  assumes "ds \<noteq> []" "\<forall>x \<in> set ds. x = c"
  shows "sort ds ! (length ds div 2) = (c::real)"
proof -
  have "length ds div 2 < length (sort ds)" using assms(1) by simp
  then have "sort ds ! (length ds div 2) \<in> set (sort ds)" by (rule nth_mem)
  then show ?thesis using assms(2) by simp
qed

lemma z_alignment_result:
  assumes "vs \<noteq> []"
  shows "z_alignment cast t vs =
     (let diffs = z_differences cast t (ground_floor_verts vs);
          offset = sort diffs ! (length diffs div 2)
      in if diffs = [] then Inr (vs, [NoRayHits])
         else if \<bar>offset\<bar> > 1 / 2
         then Inr (map (shift_z offset) vs,
                   [MedianAdjustment (length diffs) offset, ApplyingAdjustment offset])
         else Inr (vs, [MedianAdjustment (length diffs) offset]))"
  using assms by (cases vs) (simp_all add: z_alignment_def bind_err_def Let_def)

lemma small_building_diffs:
  "z_differences sloped_cast 17 (ground_floor_verts small_building) = [12, 12, 12]"
  by (simp add: ground_floor_verts_def sorted_verts_def small_building_def sample_count_def
      sloped_cast_def px_def py_def pz_def)

lemma twenty_sorted: "sorted_verts twenty_vertices = enumerate 0 twenty_vertices"
  by (simp add: sorted_verts_def twenty_vertices_def pz_def)

text \<open>
  C3, as the code has it. The samples are the \<open>max(10, n div 10)\<close> lowest vertices
  (all of them when there are fewer), which is the lowest decile once there are at least
  100 vertices. The differences are terrain Z minus vertex Z of the samples whose ray
  hits. When there is at least one, the offset is the element of the sorted differences
  at index \<open>length div 2\<close> (the median, the upper one of the two middle values for an even
  count), and every vertex is shifted by it in Z exactly when its magnitude exceeds 0.5.
  So when there is a hit and every sampled difference is 12, the offset is 12 and every
  vertex is shifted by +12.
\<close>

theorem alignment_median_offset:
  assumes "vs \<noteq> []"
  shows "\<exists>vs' msgs. z_alignment cast t vs = Inr (vs', msgs) \<and>
     length (ground_floor_verts vs) = min (length vs) (max 10 (length vs div 10)) \<and>
     (100 \<le> length vs \<longrightarrow> ground_floor_verts vs = lowest_decile vs) \<and>
     set (sorted_verts vs) = set (enumerate 0 vs) \<and>
     (\<forall>s \<in> set (ground_floor_verts vs).
        \<forall>r \<in> set (drop (sample_count (length vs)) (sorted_verts vs)). pz (snd s) \<le> pz (snd r)) \<and>
     z_differences cast t (ground_floor_verts vs) =
       List.map_filter (sample_diff cast t) (ground_floor_verts vs) \<and>
     (let diffs = z_differences cast t (ground_floor_verts vs);
          offset = sort diffs ! (length diffs div 2)
      in diffs \<noteq> [] \<longrightarrow>
           vs' = (if \<bar>offset\<bar> > 1 / 2 then map (shift_z offset) vs else vs) \<and>
           ((\<forall>x \<in> set diffs. x = 12) \<longrightarrow> offset = 12 \<and> vs' = map (shift_z 12) vs))"
proof -
  let ?diffs = "z_differences cast t (ground_floor_verts vs)"
  let ?offset = "sort ?diffs ! (length ?diffs div 2)"
  have c: "?diffs \<noteq> [] \<Longrightarrow> \<forall>x \<in> set ?diffs. x = 12 \<Longrightarrow> ?offset = 12"
    by (rule constant_median)
  obtain vs' msgs where r: "z_alignment cast t vs = Inr (vs', msgs)"
    using z_alignment_result [OF assms, of cast t] by (auto simp: Let_def split: if_splits)
  have v: "?diffs \<noteq> [] \<Longrightarrow> vs' = (if \<bar>?offset\<bar> > 1 / 2 then map (shift_z ?offset) vs else vs)"
    using r z_alignment_result [OF assms, of cast t] by (auto simp: Let_def split: if_splits)
  have w: "?diffs \<noteq> [] \<Longrightarrow> \<forall>x \<in> set ?diffs. x = 12 \<Longrightarrow> vs' = map (shift_z 12) vs"
    using v c by simp
  show ?thesis
    using r v w c ground_floor_length [of vs] ground_floor_decile [of vs]
      sorted_verts_props(2) [of vs] ground_floor_lowest [of _ vs]
      z_differences_map_filter [of cast t "ground_floor_verts vs"]
    by (intro exI [of _ vs'] exI [of _ msgs]) (simp add: Let_def)
qed

theorem alignment_median_offset_witness:
  "small_building \<noteq> [] \<and>
   z_differences sloped_cast 17 (ground_floor_verts small_building) = [12, 12, 12] \<and>
   (\<exists>msgs. z_alignment sloped_cast 17 small_building =
              Inr (map (shift_z 12) small_building, msgs))"
proof -
  have n: "small_building \<noteq> []" by (simp add: small_building_def)
  from alignment_median_offset [OF n, of sloped_cast 17] small_building_diffs n
  show ?thesis by (auto simp: Let_def)
qed

text \<open>
  C3 as the specification words it does not hold where the lowest decile and the code's
  samples differ.
  Of twenty vertices the lowest decile is the two lowest; here both lie 12 below the
  terrain, so every difference sampled from the decile is 12. The code samples the ten
  lowest, eight of which lie on the terrain, finds the median 0 and shifts nothing.
\<close>

theorem decile_counterexample:
  "length twenty_vertices = 20 \<and>
   z_differences flat_cast 0 (lowest_decile twenty_vertices) = [12, 12] \<and>
   length (ground_floor_verts twenty_vertices) = 10 \<and>
   z_alignment flat_cast 0 twenty_vertices = Inr (twenty_vertices, [MedianAdjustment 10 0])"
proof -
  have 1: "length twenty_vertices = 20" by (simp add: twenty_vertices_def)
  have 2: "z_differences flat_cast 0 (lowest_decile twenty_vertices) = [12, 12]"
    unfolding lowest_decile_def twenty_sorted
    by (simp add: twenty_vertices_def flat_cast_def pz_def px_def py_def)
  have 3: "length (ground_floor_verts twenty_vertices) = 10"
    by (simp add: ground_floor_length 1)
  have 4: "z_alignment flat_cast 0 twenty_vertices = Inr (twenty_vertices, [MedianAdjustment 10 0])"
    unfolding z_alignment_def ground_floor_verts_def twenty_sorted
    by (simp add: twenty_vertices_def flat_cast_def pz_def px_def py_def bind_err_def
        sample_count_def)
  from 1 2 3 4 show ?thesis by simp
qed

text \<open>
  C8. When no ray of the samples hits the terrain, the alignment changes no vertex,
  reports that no ray hit, and returns normally. (The building mesh has at least one
  vertex where the alignment runs: an empty mesh made the function return earlier.)
\<close>

theorem alignment_skipped_without_hits:
  assumes "vs \<noteq> []"
    and "\<forall>iv \<in> set (ground_floor_verts vs).
           cast (px (snd iv), py (snd iv), t + 1000) (0, 0, - 1) = None"
  shows "z_alignment cast t vs = Inr (vs, [NoRayHits])"
proof -
  have "z_differences cast t (ground_floor_verts vs) = []"
    using assms(2) by (simp add: z_differences_empty)
  then show ?thesis using z_alignment_result [OF assms(1), of cast t] by simp
qed

theorem alignment_skipped_without_hits_witness:
  "small_building \<noteq> [] \<and>
   z_alignment no_hit_cast 17 small_building = Inr (small_building, [NoRayHits])"
proof -
  have n: "small_building \<noteq> []" by (simp add: small_building_def)
  have h: "\<forall>iv \<in> set (ground_floor_verts small_building).
             no_hit_cast (px (snd iv), py (snd iv), 17 + 1000) (0, 0, - 1) = None"
    by (simp add: no_hit_cast_def)
  from alignment_skipped_without_hits [of small_building no_hit_cast 17] n h
  show ?thesis by simp
qed

section \<open>Properties of the boolean subtractions\<close>

lemma py_min_Inr: "xs \<noteq> [] \<Longrightarrow> \<exists>m. py_min xs = Inr m"
  by (cases xs) auto

lemma py_max_Inr: "xs \<noteq> [] \<Longrightarrow> \<exists>m. py_max xs = Inr m"
  by (cases xs) auto

lemma measure_tile_ok:
  "bound_box d \<noteq> [] \<Longrightarrow> vertices d \<noteq> [] \<Longrightarrow> \<exists>t. measure_tile d = Inr t"
  by (cases "bound_box d"; cases "vertices d") (auto simp: measure_tile_def bind_err_def)

lemma measure_tile_vertices: "measure_tile d = Inr t \<Longrightarrow> vertices d \<noteq> []"
  by (cases "vertices d") (auto simp: measure_tile_def bind_err_def split: sum.splits)

lemma cutout_setup_vertices: "cutout_setup d props = Inr g \<Longrightarrow> vertices d \<noteq> []"
  by (auto simp: cutout_setup_def bind_err_def split: sum.splits dest: measure_tile_vertices)

lemma cutout_setup_ok:
  assumes "bound_box d \<noteq> []" "vertices d \<noteq> []" "dimensions_x d \<noteq> 0" "output_width props \<noteq> 0"
  shows "\<exists>g. cutout_setup d props = Inr g"
proof -
  from measure_tile_ok [OF assms(1,2)] obtain t where "measure_tile d = Inr t" by blast
  then show ?thesis using assms(3,4)
    by (simp add: cutout_setup_def bind_err_def future_scale_def py_div_def Let_def)
qed

lemma hole_setup_vertices: "hole_setup d props = Inr g \<Longrightarrow> vertices d \<noteq> []"
  by (auto simp: hole_setup_def bind_err_def split: sum.splits dest: measure_tile_vertices)

lemma hole_setup_ok:
  assumes "bound_box d \<noteq> []" "vertices d \<noteq> []" "dimensions_x d \<noteq> 0" "output_width props \<noteq> 0"
  shows "\<exists>g. hole_setup d props = Inr g"
proof -
  from measure_tile_ok [OF assms(1,2)] obtain t where "measure_tile d = Inr t" by blast
  then show ?thesis using assms(3,4)
    by (simp add: hole_setup_def bind_err_def future_scale_def py_div_def Let_def)
qed

lemma bottom_cutter_ok:
  assumes "bound_box d \<noteq> []"
  shows "\<exists>b. bottom_cutter d cut_elevation = Inr b"
  using assms by (cases "bound_box d") (auto simp: bottom_cutter_def bind_err_def Let_def)

lemma create_north_arrow_ok:
  assumes "bound_box d \<noteq> []"
  shows "\<exists>m. create_north_arrow to_mesh d mnz text_size_m depth_m extension = Inr m"
  using assms by (cases "bound_box d") (auto simp: create_north_arrow_def bind_err_def Let_def)

lemma deboss_cutter_ok:
  assumes "bound_box d \<noteq> []" "vertices d \<noteq> []" "dimensions_x d \<noteq> 0" "output_width props \<noteq> 0"
  shows "\<exists>m. deboss_cutter to_mesh d text_string props = Inr m"
proof -
  from assms(2) obtain mnz where mnz: "py_min (map pz (vertices d)) = Inr mnz"
    using py_min_Inr [of "map pz (vertices d)"] by auto
  let ?fs = "output_width props / (dimensions_x d * 1000)"
  let ?depth = "text_depth props / 1000 / ?fs"
  from create_north_arrow_ok [OF assms(1), of to_mesh mnz "dimensions_x d * 0.12" ?depth "?depth * 2"]
  obtain arrow where "create_north_arrow to_mesh d mnz (dimensions_x d * 0.12) ?depth (?depth * 2)
      = Inr arrow" by blast
  then show ?thesis using mnz assms(3,4)
    by (simp add: deboss_cutter_def bind_err_def future_scale_def py_div_def Let_def)
qed

lemma applied_append: "applied (xs @ ys) = applied xs @ applied ys"
  by (induction xs rule: applied.induct) auto

lemma linked_append: "linked (xs @ ys) = linked xs @ linked ys"
  by (induction xs rule: linked.induct) auto



lemma after_subtraction_fail:
  "bop EXACT d m = None \<Longrightarrow> bop FAST d m = None \<Longrightarrow> after_subtraction bop d m = d"
  by (simp add: after_subtraction_def)

lemma after_subtraction_vertices:
  "keeps_vertices bop \<Longrightarrow> vertices d \<noteq> [] \<Longrightarrow> vertices (after_subtraction bop d m) \<noteq> []"
  by (auto simp: keeps_vertices_def after_subtraction_def split: option.splits)

lemma process_cutout_attempt:
  assumes "terrain s = Some d" "vertices d \<noteq> []"
  shows "trace (fst (process_cutout bop g cfg (s, n_ok, n_failed))) =
           trace s @ exact_then_fast bop d (''Cutout_'' @ config_name cfg) (prism_mesh g cfg)"
    and "terrain (fst (process_cutout bop g cfg (s, n_ok, n_failed))) =
           Some (after_subtraction bop d (prism_mesh g cfg))"
    and "snd (process_cutout bop g cfg (s, n_ok, n_failed)) =
           (if bop EXACT d (prism_mesh g cfg) = None \<and> bop FAST d (prism_mesh g cfg) = None
            then (n_ok, n_failed + 1) else (n_ok + 1, n_failed))"
  using assms
  by (auto simp: process_cutout_def link_object_def modifiers_new_def modifier_apply_def
      remove_object_def say_def exact_then_fast_def after_subtraction_def Let_def
      split: option.splits)

lemma process_cutout_failed:
  assumes "terrain s = Some d" "vertices d \<noteq> []"
    "bop EXACT d (prism_mesh g cfg) = None" "bop FAST d (prism_mesh g cfg) = None"
  shows "printed (fst (process_cutout bop g cfg (s, n_ok, n_failed))) =
           printed s @ [CutFailed (config_name cfg), FallbackFailed (config_name cfg)]"
  using assms
  by (auto simp: process_cutout_def link_object_def modifiers_new_def modifier_apply_def
      remove_object_def say_def Let_def split: option.splits)

lemma process_cutout_skip:
  assumes "terrain s = None \<or> (\<exists>d. terrain s = Some d \<and> vertices d = [])"
  shows "trace (fst (process_cutout bop g cfg (s, n_ok, n_failed))) =
           trace s @ [Linked (''Cutout_'' @ config_name cfg), Removed (''Cutout_'' @ config_name cfg)]"
    and "terrain (fst (process_cutout bop g cfg (s, n_ok, n_failed))) = terrain s"
    and "snd (process_cutout bop g cfg (s, n_ok, n_failed)) = (n_ok, n_failed + 1)"
  using assms
  by (auto simp: process_cutout_def link_object_def remove_object_def say_def Let_def)

lemma exact_then_fast_attempted: "attempted_block n (exact_then_fast bop d n m)"
  by (simp add: attempted_block_def exact_then_fast_def)

lemma attempted_is_block: "attempted_block n blk \<Longrightarrow> cutout_block n blk"
  by (auto simp: attempted_block_def cutout_block_def)

lemma cutout_block_linked: "cutout_block n blk \<Longrightarrow> linked blk = [n]"
  by (auto simp: cutout_block_def)

lemma blocks_linked: "list_all2 cutout_block names blocks \<Longrightarrow> linked (concat blocks) = names"
  by (induction names blocks rule: list_all2_induct)
     (simp_all add: linked_append cutout_block_linked)

lemma step_block:
  "\<exists>blk. trace (fst (process_cutout bop g cfg st)) = trace (fst st) @ blk \<and>
         cutout_block (''Cutout_'' @ config_name cfg) blk \<and>
         (has_vertices (fst st) \<longrightarrow>
            attempted_block (''Cutout_'' @ config_name cfg) blk \<and>
            (keeps_vertices bop \<longrightarrow> has_vertices (fst (process_cutout bop g cfg st))))"
proof (cases "has_vertices (fst st)")
  case True
  then obtain d where d: "terrain (fst st) = Some d" "vertices d \<noteq> []"
    by (auto simp: has_vertices_def split: option.splits)
  obtain s a b where st: "st = (s, a, b)" by (cases st) auto
  show ?thesis
    using process_cutout_attempt(1,2) [of s d bop g cfg a b] d st
      after_subtraction_vertices [of bop d "prism_mesh g cfg"]
    by (auto intro: attempted_is_block exact_then_fast_attempted simp: has_vertices_def)
next
  case False
  then have sk: "terrain (fst st) = None \<or> (\<exists>d. terrain (fst st) = Some d \<and> vertices d = [])"
    by (auto simp: has_vertices_def split: option.splits)
  obtain s a b where st: "st = (s, a, b)" by (cases st) auto
  show ?thesis
    using process_cutout_skip(1) [of s bop g cfg a b] sk st False
    by (auto simp: cutout_block_def)
qed

lemma fold_blocks:
  "\<exists>blocks. trace (fst (fold (process_cutout bop g) cfgs st)) = trace (fst st) @ concat blocks \<and>
     list_all2 cutout_block (map (\<lambda>cfg. ''Cutout_'' @ config_name cfg) cfgs) blocks \<and>
     (has_vertices (fst st) \<longrightarrow> keeps_vertices bop \<longrightarrow>
        list_all2 attempted_block (map (\<lambda>cfg. ''Cutout_'' @ config_name cfg) cfgs) blocks)"
proof (induction cfgs arbitrary: st)
  case Nil
  show ?case by (intro exI [of _ "[]"]) simp
next
  case (Cons cfg cfgs)
  let ?st = "process_cutout bop g cfg st"
  from step_block [of bop g cfg st] obtain blk
    where b: "trace (fst ?st) = trace (fst st) @ blk"
      "cutout_block (''Cutout_'' @ config_name cfg) blk"
      "has_vertices (fst st) \<longrightarrow> attempted_block (''Cutout_'' @ config_name cfg) blk \<and>
         (keeps_vertices bop \<longrightarrow> has_vertices (fst ?st))" by blast
  from Cons.IH [of ?st] obtain blocks
    where bs: "trace (fst (fold (process_cutout bop g) cfgs ?st)) = trace (fst ?st) @ concat blocks"
      "list_all2 cutout_block (map (\<lambda>cfg. ''Cutout_'' @ config_name cfg) cfgs) blocks"
      "has_vertices (fst ?st) \<longrightarrow> keeps_vertices bop \<longrightarrow>
         list_all2 attempted_block (map (\<lambda>cfg. ''Cutout_'' @ config_name cfg) cfgs) blocks"
    by blast
  show ?case using b bs by (intro exI [of _ "blk # blocks"]) simp
qed

lemma cutout_names:
  "map (\<lambda>cfg. ''Cutout_'' @ config_name cfg) (cutout_configs g) = eight_cutouts"
  by (simp add: cutout_configs_def config_name_def eight_cutouts_def Let_def)

lemma cutouts_run:
  assumes "terrain s = Some d" "cutout_setup d props = Inr g"
  shows "\<exists>s' blocks.
     add_alignment_cutouts bop props s = (Returned, s') \<and>
     trace s' = trace s @ concat blocks \<and>
     list_all2 cutout_block eight_cutouts blocks \<and>
     (keeps_vertices bop \<longrightarrow> list_all2 attempted_block eight_cutouts blocks)"
proof -
  let ?st = "fold (process_cutout bop g) (cutout_configs g) (s, 0, 0)"
  have hv: "has_vertices s"
    using assms cutout_setup_vertices by (simp add: has_vertices_def)
  from fold_blocks [of bop g "cutout_configs g" "(s, 0, 0)"] hv obtain blocks
    where bs: "trace (fst ?st) = trace s @ concat blocks"
      "list_all2 cutout_block eight_cutouts blocks"
      "keeps_vertices bop \<longrightarrow> list_all2 attempted_block eight_cutouts blocks"
    unfolding cutout_names by auto
  have "\<exists>s'. add_alignment_cutouts bop props s = (Returned, s') \<and> trace s' = trace (fst ?st)"
    using assms by (simp add: add_alignment_cutouts_def Let_def say_def)
  then show ?thesis using bs by auto
qed

lemma mounting_holes_run:
  assumes "terrain s = Some d" "hole_setup d props = Inr g"
  shows "fst (add_mounting_holes bop props s) = Returned"
    and "trace (snd (add_mounting_holes bop props s)) =
           trace s @ exact_then_fast bop d ''Mounting_Holes_Combined'' (holes_mesh g)"
    and "terrain (snd (add_mounting_holes bop props s)) = Some (after_subtraction bop d (holes_mesh g))"
    and "bop EXACT d (holes_mesh g) = None \<Longrightarrow> bop FAST d (holes_mesh g) = None \<Longrightarrow>
           printed (snd (add_mounting_holes bop props s)) =
             printed s @ [HolesExactFailed, HolesFastFailed, HolesAdded]"
  using assms hole_setup_vertices [OF assms(2)]
  by (auto simp: add_mounting_holes_def link_object_def modifiers_new_def modifier_apply_def
      remove_object_def say_def exact_then_fast_def after_subtraction_def Let_def
      split: option.splits)

lemma flat_bottom_run:
  assumes "terrain s = Some d" "bottom_cutter d cut_elevation = Inr b"
  shows "applied (trace (snd (cut_flat_bottom bop cut_elevation s))) =
           applied (trace s) @ (EXACT, ''Bottom_Cutter'') #
             (if bop EXACT d (cube_mesh b) = None then [(FAST, ''Bottom_Cutter'')] else [])"
    and "terrain (snd (cut_flat_bottom bop cut_elevation s)) =
           Some (after_subtraction bop d (cube_mesh b))"
  using assms
  by (auto simp: cut_flat_bottom_def link_object_def modifiers_new_def modifier_apply_def
      remove_object_def say_def after_subtraction_def Let_def applied_append
      split: option.splits)

lemma deboss_run:
  assumes "terrain s = Some d" "deboss_cutter to_mesh d text_string props = Inr m"
  shows "fst (add_text_before_scale bop to_mesh text_string props s) = Returned"
    and "trace (snd (add_text_before_scale bop to_mesh text_string props s)) =
           trace s @ [Linked ''Final_Deboss_Cutter'', Applied FAST ''Final_Deboss_Cutter'',
                      Removed ''Final_Deboss_Cutter'']"
    and "terrain (snd (add_text_before_scale bop to_mesh text_string props s)) =
           Some (case bop FAST d m of None \<Rightarrow> d | Some d' \<Rightarrow> d')"
    and "bop FAST d m = None \<Longrightarrow>
           printed (snd (add_text_before_scale bop to_mesh text_string props s)) =
             printed s @ [DebossFailed, TextDebossed]"
  using assms
  by (auto simp: add_text_before_scale_def link_object_def modifiers_new_def modifier_apply_def
      remove_object_def say_def Let_def split: option.splits)

lemma flat_scene_fields:
  "terrain flat_scene = Some flat_terrain" "trace flat_scene = []" "printed flat_scene = []"
  "bound_box flat_terrain \<noteq> []" "vertices flat_terrain \<noteq> []" "dimensions_x flat_terrain \<noteq> 0"
  "output_width default_props \<noteq> 0"
  by (simp_all add: flat_scene_def flat_terrain_def default_props_def)



text \<open>
  C1, as the code has it. A cutout, the mounting holes and the flat-bottom cut apply the
  EXACT solver first and, when that raises, the FAST solver exactly once. The debossed
  text applies the FAST solver only, once. For a cutout, the mounting holes and the
  text, a subtraction whose solver calls all raise leaves the terrain as it was and is
  reported (for a cutout it is counted in \<open>failed_cuts\<close>), and the step returns
  normally; the cutout loop makes all eight cutters whatever the solver does. For the
  flat-bottom cut the terrain is likewise unchanged when both calls raise.
\<close>

theorem boolean_fallback_policy:
  assumes "terrain s = Some d" "bound_box d \<noteq> []" "vertices d \<noteq> []"
    "dimensions_x d \<noteq> 0" "output_width props \<noteq> 0"
  shows
    "(trace (fst (process_cutout bop g cfg (s, n_ok, n_failed))) =
        trace s @ exact_then_fast bop d (''Cutout_'' @ config_name cfg) (prism_mesh g cfg) \<and>
      (bop EXACT d (prism_mesh g cfg) = None \<and> bop FAST d (prism_mesh g cfg) = None \<longrightarrow>
         terrain (fst (process_cutout bop g cfg (s, n_ok, n_failed))) = Some d \<and>
         snd (process_cutout bop g cfg (s, n_ok, n_failed)) = (n_ok, n_failed + 1) \<and>
         printed (fst (process_cutout bop g cfg (s, n_ok, n_failed))) =
           printed s @ [CutFailed (config_name cfg), FallbackFailed (config_name cfg)]))
     \<and> (fst (add_alignment_cutouts bop props s) = Returned \<and>
         linked (trace (snd (add_alignment_cutouts bop props s))) =
           linked (trace s) @ eight_cutouts)
     \<and> (\<exists>hg. hole_setup d props = Inr hg \<and>
           fst (add_mounting_holes bop props s) = Returned \<and>
           trace (snd (add_mounting_holes bop props s)) =
             trace s @ exact_then_fast bop d ''Mounting_Holes_Combined'' (holes_mesh hg) \<and>
           (bop EXACT d (holes_mesh hg) = None \<and> bop FAST d (holes_mesh hg) = None \<longrightarrow>
              terrain (snd (add_mounting_holes bop props s)) = Some d \<and>
              printed (snd (add_mounting_holes bop props s)) =
                printed s @ [HolesExactFailed, HolesFastFailed, HolesAdded]))
     \<and> (\<exists>b. bottom_cutter d cut_elevation = Inr b \<and>
           applied (trace (snd (cut_flat_bottom bop cut_elevation s))) =
             applied (trace s) @ (EXACT, ''Bottom_Cutter'') #
               (if bop EXACT d (cube_mesh b) = None then [(FAST, ''Bottom_Cutter'')] else []) \<and>
           (bop EXACT d (cube_mesh b) = None \<and> bop FAST d (cube_mesh b) = None \<longrightarrow>
              terrain (snd (cut_flat_bottom bop cut_elevation s)) = Some d))
     \<and> (\<exists>m. deboss_cutter to_mesh d text_string props = Inr m \<and>
           fst (add_text_before_scale bop to_mesh text_string props s) = Returned \<and>
           trace (snd (add_text_before_scale bop to_mesh text_string props s)) =
             trace s @ [Linked ''Final_Deboss_Cutter'', Applied FAST ''Final_Deboss_Cutter'',
                        Removed ''Final_Deboss_Cutter''] \<and>
           (bop FAST d m = None \<longrightarrow>
              terrain (snd (add_text_before_scale bop to_mesh text_string props s)) = Some d \<and>
              printed (snd (add_text_before_scale bop to_mesh text_string props s)) =
                printed s @ [DebossFailed, TextDebossed]))"
proof -
  have 1: "trace (fst (process_cutout bop g cfg (s, n_ok, n_failed))) =
        trace s @ exact_then_fast bop d (''Cutout_'' @ config_name cfg) (prism_mesh g cfg) \<and>
      (bop EXACT d (prism_mesh g cfg) = None \<and> bop FAST d (prism_mesh g cfg) = None \<longrightarrow>
         terrain (fst (process_cutout bop g cfg (s, n_ok, n_failed))) = Some d \<and>
         snd (process_cutout bop g cfg (s, n_ok, n_failed)) = (n_ok, n_failed + 1) \<and>
         printed (fst (process_cutout bop g cfg (s, n_ok, n_failed))) =
           printed s @ [CutFailed (config_name cfg), FallbackFailed (config_name cfg)])"
    using process_cutout_attempt [OF assms(1,3), of bop g cfg n_ok n_failed]
      process_cutout_failed [OF assms(1,3), of bop g cfg n_ok n_failed]
    by (simp add: after_subtraction_fail)
  from cutout_setup_ok [OF assms(2-5)] obtain cg where cg: "cutout_setup d props = Inr cg"
    by blast
  from cutouts_run [OF assms(1) cg, of bop] obtain s' blocks
    where r: "add_alignment_cutouts bop props s = (Returned, s')"
      "trace s' = trace s @ concat blocks" "list_all2 cutout_block eight_cutouts blocks"
    by blast
  have 2: "fst (add_alignment_cutouts bop props s) = Returned \<and>
         linked (trace (snd (add_alignment_cutouts bop props s))) =
           linked (trace s) @ eight_cutouts"
    using r blocks_linked [OF r(3)] by (simp add: linked_append)
  from hole_setup_ok [OF assms(2-5)] obtain hg where hg: "hole_setup d props = Inr hg"
    by blast
  have 3: "\<exists>hg. hole_setup d props = Inr hg \<and>
           fst (add_mounting_holes bop props s) = Returned \<and>
           trace (snd (add_mounting_holes bop props s)) =
             trace s @ exact_then_fast bop d ''Mounting_Holes_Combined'' (holes_mesh hg) \<and>
           (bop EXACT d (holes_mesh hg) = None \<and> bop FAST d (holes_mesh hg) = None \<longrightarrow>
              terrain (snd (add_mounting_holes bop props s)) = Some d \<and>
              printed (snd (add_mounting_holes bop props s)) =
                printed s @ [HolesExactFailed, HolesFastFailed, HolesAdded])"
    using hg mounting_holes_run [OF assms(1) hg, of bop]
    by (intro exI [of _ hg]) (simp add: after_subtraction_fail)
  from bottom_cutter_ok [OF assms(2), of cut_elevation] obtain b
    where b: "bottom_cutter d cut_elevation = Inr b" by blast
  have 4: "\<exists>b. bottom_cutter d cut_elevation = Inr b \<and>
           applied (trace (snd (cut_flat_bottom bop cut_elevation s))) =
             applied (trace s) @ (EXACT, ''Bottom_Cutter'') #
               (if bop EXACT d (cube_mesh b) = None then [(FAST, ''Bottom_Cutter'')] else []) \<and>
           (bop EXACT d (cube_mesh b) = None \<and> bop FAST d (cube_mesh b) = None \<longrightarrow>
              terrain (snd (cut_flat_bottom bop cut_elevation s)) = Some d)"
    using b flat_bottom_run [OF assms(1) b, of bop]
    by (intro exI [of _ b]) (simp add: after_subtraction_fail)
  from deboss_cutter_ok [OF assms(2-5), of to_mesh text_string] obtain m
    where m: "deboss_cutter to_mesh d text_string props = Inr m" by blast
  have 5: "\<exists>m. deboss_cutter to_mesh d text_string props = Inr m \<and>
           fst (add_text_before_scale bop to_mesh text_string props s) = Returned \<and>
           trace (snd (add_text_before_scale bop to_mesh text_string props s)) =
             trace s @ [Linked ''Final_Deboss_Cutter'', Applied FAST ''Final_Deboss_Cutter'',
                        Removed ''Final_Deboss_Cutter''] \<and>
           (bop FAST d m = None \<longrightarrow>
              terrain (snd (add_text_before_scale bop to_mesh text_string props s)) = Some d \<and>
              printed (snd (add_text_before_scale bop to_mesh text_string props s)) =
                printed s @ [DebossFailed, TextDebossed])"
    using m deboss_run [OF assms(1) m, of bop]
    by (intro exI [of _ m]) simp
  from 1 2 3 4 5 show ?thesis by blast
qed

theorem boolean_fallback_policy_witness:
  "terrain flat_scene = Some flat_terrain \<and> bound_box flat_terrain \<noteq> [] \<and>
   vertices flat_terrain \<noteq> [] \<and> dimensions_x flat_terrain \<noteq> 0 \<and>
   output_width default_props \<noteq> 0 \<and>
   trace (fst (process_cutout solver_raises flat_geometry (0, 0, pi, ''South_W'') (flat_scene, 0, 0))) =
     [Linked ''Cutout_South_W'', Applied EXACT ''Cutout_South_W'',
      Applied FAST ''Cutout_South_W'', Removed ''Cutout_South_W''] \<and>
   terrain (fst (process_cutout solver_raises flat_geometry (0, 0, pi, ''South_W'') (flat_scene, 0, 0))) =
     Some flat_terrain \<and>
   snd (process_cutout solver_raises flat_geometry (0, 0, pi, ''South_W'') (flat_scene, 0, 0)) = (0, 1) \<and>
   fst (add_alignment_cutouts solver_raises default_props flat_scene) = Returned \<and>
   linked (trace (snd (add_alignment_cutouts solver_raises default_props flat_scene))) =
     eight_cutouts \<and>
   fst (add_mounting_holes solver_raises default_props flat_scene) = Returned \<and>
   terrain (snd (add_mounting_holes solver_raises default_props flat_scene)) = Some flat_terrain \<and>
   applied (trace (snd (cut_flat_bottom solver_raises 0 flat_scene))) =
     [(EXACT, ''Bottom_Cutter''), (FAST, ''Bottom_Cutter'')] \<and>
   trace (snd (add_text_before_scale solver_raises plain_text ''tile'' default_props flat_scene)) =
     [Linked ''Final_Deboss_Cutter'', Applied FAST ''Final_Deboss_Cutter'',
      Removed ''Final_Deboss_Cutter''] \<and>
   terrain (snd (add_text_before_scale solver_raises plain_text ''tile'' default_props flat_scene))
     = Some flat_terrain"
  using boolean_fallback_policy [OF flat_scene_fields(1,4,5,6,7), of solver_raises
      flat_geometry "(0, 0, pi, ''South_W'')" 0 0 0 plain_text "''tile''"]
  by (auto simp: flat_scene_fields solver_raises_def exact_then_fast_def config_name_def)

text \<open>
  C1 as the specification words it does not hold for the debossed text: even with a
  solver whose EXACT mode would succeed and whose FAST mode raises, only FAST is applied;
  the subtraction fails, the terrain is unchanged and the failure is reported.
\<close>

theorem deboss_never_exact:
  "trace (snd (add_text_before_scale solver_exact_only plain_text ''tile'' default_props flat_scene))
     = [Linked ''Final_Deboss_Cutter'', Applied FAST ''Final_Deboss_Cutter'',
        Removed ''Final_Deboss_Cutter'']
   \<and> terrain (snd (add_text_before_scale solver_exact_only plain_text ''tile'' default_props
        flat_scene)) = Some flat_terrain
   \<and> printed (snd (add_text_before_scale solver_exact_only plain_text ''tile'' default_props
        flat_scene)) = [DebossFailed, TextDebossed]
   \<and> (\<forall>cutter. solver_exact_only EXACT flat_terrain cutter = Some flat_terrain)"
proof -
  from deboss_cutter_ok [OF flat_scene_fields(4,5,6,7), of plain_text "''tile''"] obtain m
    where m: "deboss_cutter plain_text flat_terrain ''tile'' default_props = Inr m" by blast
  have f: "solver_exact_only FAST flat_terrain m = None" by (simp add: solver_exact_only_def)
  from deboss_run [OF flat_scene_fields(1) m, of solver_exact_only] f
  show ?thesis by (simp add: flat_scene_fields solver_exact_only_def)
qed













section \<open>Properties of the cutter geometry\<close>








section \<open>Properties of the flat-bottom cut\<close>















end
